theory Spec2Isabelle
  imports Main "HOL-Library.Char_ord" "HOL-Library.List_Lexorder"
begin

section \<open>Python values used by \<open>scripts/validate_jira_msg.py\<close>\<close>

text \<open>
  A Python \<open>str\<close> is a sequence of Unicode code points. Commit messages, command-line
  arguments and file names are modelled as \<^typ>\<open>string\<close>, where a \<^typ>\<open>char\<close> stands for
  the code point of the same number (0 to 255, so ASCII and the Latin-1 supplement, not
  UTF-8 bytes): the model covers the messages written with these code points. Text
  written to the standard error stream is a list of code points of any size, since the
  script prints U+274C there.
\<close>

type_synonym codepoints = "nat list"

definition utext :: "string \<Rightarrow> codepoints" where
  "utext s = map of_char s"

text \<open>The exceptions the script can let escape.\<close>

datatype pyerr = IndexError | OSError | PermissionError | RuntimeError | UnicodeDecodeError

text \<open>\<open>xs[i]\<close>: an index below zero counts from the end, an index outside the list raises.\<close>

definition index :: "'a list \<Rightarrow> int \<Rightarrow> pyerr + 'a" where
  "index xs i =
     (if 0 \<le> i \<and> i < int (length xs) then Inr (xs ! nat i)
      else if i < 0 \<and> - i \<le> int (length xs) then Inr (xs ! nat (int (length xs) + i))
      else Inl IndexError)"

subsection \<open>\<open>str.strip\<close>, \<open>str.lower\<close>, \<open>str.rstrip(chars)\<close>\<close>

text \<open>
  The code points below 256 that \<open>str.strip()\<close> removes: U+0009 to U+000D, U+001C to
  U+001F, the space, U+0085 and U+00A0.
\<close>

definition is_space :: "char \<Rightarrow> bool" where
  "is_space c = (of_char c \<in> set [9, 10, 11, 12, 13, 28, 29, 30, 31, 32, 133, 160 :: nat])"

definition lstrip :: "string \<Rightarrow> string" where
  "lstrip s = dropWhile is_space s"

definition rstrip :: "string \<Rightarrow> string" where
  "rstrip s = rev (dropWhile is_space (rev s))"

definition strip :: "string \<Rightarrow> string" where
  "strip s = rstrip (lstrip s)"

text \<open>\<open>s.rstrip(chars)\<close> removes the trailing characters that occur in \<open>chars\<close>.\<close>

definition rstrip_chars :: "string \<Rightarrow> string \<Rightarrow> string" where
  "rstrip_chars chars s = rev (dropWhile (\<lambda>c. c \<in> set chars) (rev s))"

text \<open>
  \<open>str.lower()\<close> below U+0100: \<open>A\<close> to \<open>Z\<close> and U+00C0 to U+00DE, the multiplication
  sign U+00D7 apart, move up by 32; every other code point is kept.
\<close>

definition lower_char :: "char \<Rightarrow> char" where
  "lower_char c =
     (let n = of_char c :: nat
      in if (65 \<le> n \<and> n \<le> 90) \<or> (192 \<le> n \<and> n \<le> 222 \<and> n \<noteq> 215) then char_of (n + 32) else c)"

definition lower :: "string \<Rightarrow> string" where
  "lower s = map lower_char s"

subsection \<open>\<open>str.splitlines\<close> and \<open>str.split(sep, maxsplit=1)\<close>\<close>

text \<open>
  The line boundaries of \<open>str.splitlines()\<close> below U+0100: LF, VT, FF, CR, FS, GS, RS and
  NEL; CR followed by LF is one boundary. A boundary ends a line (an empty one too); the
  text after the last boundary is a line when it is not empty.
\<close>

definition is_linebreak :: "char \<Rightarrow> bool" where
  "is_linebreak c = (of_char c \<in> set [10, 11, 12, 13, 28, 29, 30, 133 :: nat])"

fun splitlines_from :: "string \<Rightarrow> string \<Rightarrow> string list" where
  "splitlines_from cur [] = (if cur = [] then [] else [cur])"
| "splitlines_from cur (c # cs) =
     (if c = CHR 0x0D \<and> cs \<noteq> [] \<and> hd cs = CHR 0x0A then cur # splitlines_from [] (tl cs)
      else if is_linebreak c then cur # splitlines_from [] cs
      else splitlines_from (cur @ [c]) cs)"

definition splitlines :: "string \<Rightarrow> string list" where
  "splitlines s = splitlines_from [] s"

text \<open>
  \<open>s.split(sep, maxsplit=1)\<close> for a separator that is not empty: the text before the first
  occurrence of \<open>sep\<close> and the text after it, or \<open>s\<close> alone when \<open>sep\<close> does not occur.
\<close>

fun split_once_from :: "string \<Rightarrow> string \<Rightarrow> string \<Rightarrow> string list" where
  "split_once_from sep acc [] = [acc]"
| "split_once_from sep acc (c # cs) =
     (if take (length sep) (c # cs) = sep then [acc, drop (length sep) (c # cs)]
      else split_once_from sep (acc @ [c]) cs)"

definition split_once :: "string \<Rightarrow> string \<Rightarrow> string list" where
  "split_once sep s = split_once_from sep [] s"

text \<open>\<open>sub in s\<close> on sequences: \<open>sub\<close> occurs in \<open>s\<close> as a contiguous block.\<close>

fun contains :: "'a list \<Rightarrow> 'a list \<Rightarrow> bool" where
  "contains sub [] = (sub = [])"
| "contains sub (c # cs) = (take (length sub) (c # cs) = sub \<or> contains sub cs)"

text \<open>\<open>sep.join(xs)\<close>.\<close>

fun join :: "string \<Rightarrow> string list \<Rightarrow> string" where
  "join sep [] = []"
| "join sep [x] = x"
| "join sep (x # y # ys) = x @ sep @ join sep (y # ys)"

subsection \<open>Regular expressions\<close>

text \<open>
  The fragment of \<open>re\<close> that \<open>JIRA_PATTERN\<close> is written in: literal characters, ranges
  such as \<open>[0-9]\<close>, the dot (any character but LF), sequencing and repetition. A pattern
  is matched by taking its derivative along the subject string.
\<close>

datatype regex =
    Zero
  | One
  | Lit char
  | Range char char
  | Dot
  | Alt regex regex
  | Seq regex regex
  | Star regex

fun nullable :: "regex \<Rightarrow> bool" where
  "nullable Zero = False"
| "nullable One = True"
| "nullable (Lit a) = False"
| "nullable (Range a b) = False"
| "nullable Dot = False"
| "nullable (Alt r s) = (nullable r \<or> nullable s)"
| "nullable (Seq r s) = (nullable r \<and> nullable s)"
| "nullable (Star r) = True"

fun deriv :: "char \<Rightarrow> regex \<Rightarrow> regex" where
  "deriv c Zero = Zero"
| "deriv c One = Zero"
| "deriv c (Lit a) = (if c = a then One else Zero)"
| "deriv c (Range a b) = (if a \<le> c \<and> c \<le> b then One else Zero)"
| "deriv c Dot = (if c = CHR 0x0A then Zero else One)"
| "deriv c (Alt r s) = Alt (deriv c r) (deriv c s)"
| "deriv c (Seq r s) =
     (if nullable r then Alt (Seq (deriv c r) s) (deriv c s) else Seq (deriv c r) s)"
| "deriv c (Star r) = Seq (deriv c r) (Star r)"

fun fullmatch :: "regex \<Rightarrow> string \<Rightarrow> bool" where
  "fullmatch r [] = nullable r"
| "fullmatch r (c # cs) = fullmatch (deriv c r) cs"

text \<open>\<open>r+\<close>, a literal word, and \<open>$\<close> as the last item of a pattern: the end of the
  string, or the position before a final LF.\<close>

definition Plus :: "regex \<Rightarrow> regex" where
  "Plus r = Seq r (Star r)"

fun Word :: "string \<Rightarrow> regex" where
  "Word [] = One"
| "Word (c # cs) = Seq (Lit c) (Word cs)"

definition Dollar :: regex where
  "Dollar = Alt One (Lit (CHR 0x0A))"

text \<open>
  \<open>pattern.match(s)\<close> for a pattern \<open>^r$\<close>: the match starts at the beginning of \<open>s\<close> (so
  \<open>^\<close> adds nothing) and \<open>$\<close> ends it at the end of \<open>s\<close> or before its final LF; that is,
  \<open>r\<close> followed by \<open>Dollar\<close> matches the whole of \<open>s\<close>.
\<close>

definition re_match_anchored :: "regex \<Rightarrow> string \<Rightarrow> bool" where
  "re_match_anchored r s = fullmatch (Seq r Dollar) s"

text \<open>
  The meaning of a pattern, against which the matcher is checked: \<open>denotes r w\<close> says
  that the word \<open>w\<close> belongs to the language of \<open>r\<close>.
\<close>

inductive denotes :: "regex \<Rightarrow> string \<Rightarrow> bool" where
  den_One: "denotes One []"
| den_Lit: "denotes (Lit a) [a]"
| den_Range: "a \<le> c \<Longrightarrow> c \<le> b \<Longrightarrow> denotes (Range a b) [c]"
| den_Dot: "c \<noteq> CHR 0x0A \<Longrightarrow> denotes Dot [c]"
| den_AltL: "denotes r w \<Longrightarrow> denotes (Alt r s) w"
| den_AltR: "denotes s w \<Longrightarrow> denotes (Alt r s) w"
| den_Seq: "denotes r u \<Longrightarrow> denotes s v \<Longrightarrow> denotes (Seq r s) (u @ v)"
| den_Star_Nil: "denotes (Star r) []"
| den_Star_App: "denotes r u \<Longrightarrow> denotes (Star r) v \<Longrightarrow> denotes (Star r) (u @ v)"

section \<open>Configuration\<close>

text \<open>\<open>JIRA_PATTERN = re.compile(r"^DSO-[0-9]+: [A-Z].+$")\<close>, without its anchors.\<close>

definition JIRA_PATTERN :: regex where
  "JIRA_PATTERN =
     Seq (Word ''DSO-'')
       (Seq (Plus (Range CHR ''0'' CHR ''9''))
         (Seq (Word '': '')
           (Seq (Range CHR ''A'' CHR ''Z'') (Plus Dot))))"

definition LAZY_SUMMARIES :: "string set" where
  "LAZY_SUMMARIES =
     {''fix'', ''fix.'', ''work'', ''wip'', ''...'', ''update'', ''changes'', ''stuff'',
      ''test'', ''done''}"

definition ALLOWED_MSG_FILES :: "string set" where
  "ALLOWED_MSG_FILES = {''COMMIT_EDITMSG'', ''MERGE_MSG'', ''SQUASH_MSG'', ''TAG_EDITMSG''}"

section \<open>Validation\<close>

text \<open>
  \<open>message.strip().splitlines()[0] if message.strip() else ""\<close>
\<close>

definition first_line_of :: "string \<Rightarrow> pyerr + string" where
  "first_line_of message =
     (if strip message \<noteq> [] then index (splitlines (strip message)) 0 else Inr [])"

text \<open>
  \<open>first_line.split(": ", maxsplit=1)[-1].strip().lower().rstrip(".")\<close>
\<close>

definition summary_part_of :: "string \<Rightarrow> pyerr + string" where
  "summary_part_of first_line =
     (case index (split_once '': '' first_line) (- 1) of
        Inl e \<Rightarrow> Inl e
      | Inr tail \<Rightarrow> Inr (rstrip_chars ''.'' (lower (strip tail))))"

definition empty_error :: string where
  "empty_error = ''Commit message is empty.''"

definition lazy_error :: "string \<Rightarrow> string" where
  "lazy_error first_line =
     ''Lazy commit summary rejected: '' @ [CHR 0x27] @ first_line @ [CHR 0x27, CHR 0x0A]
     @ ''  Summaries like '' @ [CHR 0x27] @ ''fix'' @ [CHR 0x27] @ '', ''
     @ [CHR 0x27] @ ''work'' @ [CHR 0x27] @ '', or '' @ [CHR 0x27] @ ''...'' @ [CHR 0x27]
     @ '' are not allowed.'' @ [CHR 0x0A]
     @ ''  Write a meaningful description of the change.''"

definition pattern_error :: "string \<Rightarrow> string" where
  "pattern_error first_line =
     ''Commit rejected: '' @ [CHR 0x27] @ first_line @ [CHR 0x27, CHR 0x0A]
     @ ''  Every commit must reference a Jira ticket from the DSO project.'' @ [CHR 0x0A]
     @ ''  Required format: DSO-<number>: <Capitalized summary>'' @ [CHR 0x0A]
     @ ''  Example:         DSO-42: Implement rate limiter with 20% jitter''"

text \<open>
  \<open>validate_commit_message\<close>: \<open>Inr None\<close> is the source's \<open>None\<close> (the message is valid),
  \<open>Inr (Some e)\<close> the error string \<open>e\<close>, \<open>Inl\<close> an exception.
\<close>

definition validate_commit_message :: "string \<Rightarrow> pyerr + string option" where
  "validate_commit_message message =
     (case first_line_of message of
        Inl e \<Rightarrow> Inl e
      | Inr first_line \<Rightarrow>
          if first_line = [] then Inr (Some empty_error)
          else
            (case summary_part_of first_line of
               Inl e \<Rightarrow> Inl e
             | Inr summary_part \<Rightarrow>
                 if summary_part \<in> LAZY_SUMMARIES then Inr (Some (lazy_error first_line))
                 else if \<not> re_match_anchored JIRA_PATTERN first_line
                   then Inr (Some (pattern_error first_line))
                 else Inr None))"

section \<open>Entry point\<close>

text \<open>\<open>os.path.basename\<close> (POSIX): what follows the last slash.\<close>

definition basename :: "string \<Rightarrow> string" where
  "basename p = rev (takeWhile (\<lambda>c. c \<noteq> CHR ''/'') (rev p))"

text \<open>
  What the script sees of the file system, each answer being a value or the exception
  raised: the absolute path that \<open>Path(".git").resolve()\<close> gives in the current directory,
  and for every absolute path what \<open>Path.is_file()\<close> and
  \<open>Path.read_text(encoding="utf-8")\<close> do on it. \<open>is_file\<close> answers \<open>False\<close> for a path that
  does not exist or is no regular file, and raises (a \<open>PermissionError\<close>, say) when the
  path cannot be examined.
\<close>

record filesystem =
  resolve_git_dir :: "pyerr + string"
  is_file :: "string \<Rightarrow> pyerr + bool"
  read_text :: "string \<Rightarrow> pyerr + string"

text \<open>
  \<open>_safe_commit_msg_path\<close>: \<open>Inr None\<close> is the source's \<open>None\<close>, \<open>Inr (Some p)\<close> the path
  \<open>p\<close>, \<open>Inl\<close> an exception of \<open>resolve\<close> or \<open>is_file\<close>.
\<close>

definition safe_commit_msg_path :: "filesystem \<Rightarrow> string \<Rightarrow> pyerr + string option" where
  "safe_commit_msg_path fs raw_arg =
     (let basename = basename raw_arg
      in if basename \<notin> ALLOWED_MSG_FILES then Inr None
         else
           (case resolve_git_dir fs of
              Inl e \<Rightarrow> Inl e
            | Inr git_dir \<Rightarrow>
                (let safe_path = git_dir @ ''/'' @ basename
                 in case is_file fs safe_path of
                      Inl e \<Rightarrow> Inl e
                    | Inr found \<Rightarrow> if \<not> found then Inr None else Inr (Some safe_path))))"

definition usage_error :: string where
  "usage_error = ''Usage: validate_jira_msg.py <commit-msg-file>''"

definition not_recognized_error :: "string \<Rightarrow> string" where
  "not_recognized_error arg =
     ''Error: '' @ [CHR 0x27] @ arg @ [CHR 0x27]
     @ '' is not a recognized git commit message file.'' @ [CHR 0x0A]
     @ ''  Expected one of: '' @ join '', '' (sorted_list_of_set ALLOWED_MSG_FILES)"

text \<open>The text of \<open>print\<close> for a rejected message: a line feed, the cross mark U+274C, a
  space, the error and a line feed.\<close>

definition rejection_text :: "string \<Rightarrow> codepoints" where
  "rejection_text error = [0x0A, 0x274C, 0x20] @ utext error @ [0x0A]"

text \<open>\<open>print(t, file=sys.stderr)\<close> writes \<open>t\<close> and a line feed.\<close>

definition print_line :: "codepoints \<Rightarrow> codepoints" where
  "print_line t = t @ [0x0A]"

text \<open>
  \<open>main\<close>, given the file system and \<open>sys.argv\<close>: the exit code and what was written to the
  standard error stream, or the exception that escaped. Nothing is written to the
  standard output.
\<close>

definition main :: "filesystem \<Rightarrow> string list \<Rightarrow> pyerr + int \<times> codepoints" where
  "main fs argv =
     (if length argv < 2 then Inr (1, print_line (utext usage_error))
      else
        (case safe_commit_msg_path fs (argv ! 1) of
           Inl e \<Rightarrow> Inl e
         | Inr None \<Rightarrow> Inr (1, print_line (utext (not_recognized_error (argv ! 1))))
         | Inr (Some commit_msg_path) \<Rightarrow>
             (case read_text fs commit_msg_path of
                Inl e \<Rightarrow> Inl e
              | Inr message \<Rightarrow>
                  (case validate_commit_message message of
                     Inl e \<Rightarrow> Inl e
                   | Inr (Some error) \<Rightarrow> Inr (1, print_line (rejection_text error))
                   | Inr None \<Rightarrow> Inr (0, [])))))"

subsection \<open>Sample repositories\<close>

text \<open>
  Three file systems to run \<open>main\<close> on: a repository whose \<open>.git\<close> directory holds no
  message file, one that holds \<open>COMMIT_EDITMSG\<close> with a given text, and one whose \<open>.git\<close>
  directory cannot be searched, so that \<open>is_file\<close> raises.
\<close>

definition empty_repo :: filesystem where
  "empty_repo =
     \<lparr>resolve_git_dir = Inr ''/repo/.git'',
      is_file = (\<lambda>p. Inr False),
      read_text = (\<lambda>p. Inl OSError)\<rparr>"

definition repo_with_message :: "string \<Rightarrow> filesystem" where
  "repo_with_message message =
     \<lparr>resolve_git_dir = Inr ''/repo/.git'',
      is_file = (\<lambda>p. Inr (p = ''/repo/.git/COMMIT_EDITMSG'')),
      read_text = (\<lambda>p. if p = ''/repo/.git/COMMIT_EDITMSG'' then Inr message else Inl OSError)\<rparr>"

definition unsearchable_repo :: filesystem where
  "unsearchable_repo =
     \<lparr>resolve_git_dir = Inr ''/repo/.git'',
      is_file = (\<lambda>p. Inl PermissionError),
      read_text = (\<lambda>p. Inl PermissionError)\<rparr>"

section \<open>Properties of the string primitives and of the first line\<close>

lemma index_Cons_0: "index (x # xs) 0 = Inr x"
  by (simp add: index_def)

lemma index_last: "xs \<noteq> [] \<Longrightarrow> index xs (- 1) = Inr (last xs)"
  by (cases xs rule: rev_cases) (auto simp: index_def nth_append)

lemma contains_mid: "contains sub (xs @ sub @ ys)"
proof (induction xs)
  case Nil
  have "take (length sub) (sub @ ys) = sub" by simp
  then show ?case by (cases "sub @ ys") auto
next
  case (Cons x xs)
  then show ?case by simp
qed

lemma strip_all_space: "\<forall>c\<in>set s. is_space c \<Longrightarrow> strip s = []"
proof -
  assume "\<forall>c\<in>set s. is_space c"
  then have d: "dropWhile is_space s = []" by (induction s) auto
  show ?thesis unfolding strip_def lstrip_def rstrip_def d by simp
qed




lemma splitlines_from_first:
  "cur \<noteq> [] \<or> s \<noteq> [] \<Longrightarrow>
   index (splitlines_from cur s) 0 = Inr (cur @ takeWhile (\<lambda>c. \<not> is_linebreak c) s)"
proof (induction s arbitrary: cur)
  case Nil
  then show ?case by (simp add: index_Cons_0)
next
  case (Cons c cs)
  have cr: "is_linebreak (CHR 0x0D)" by (simp add: is_linebreak_def)
  show ?case
  proof (cases "is_linebreak c")
    case True
    then show ?thesis by (simp add: index_Cons_0)
  next
    case False
    with cr have "c \<noteq> CHR 0x0D" by auto
    with False Cons.IH [of "cur @ [c]"] show ?thesis by simp
  qed
qed

lemma first_line_of_eq:
  "first_line_of s = Inr (takeWhile (\<lambda>c. \<not> is_linebreak c) (strip s))"
  using splitlines_from_first [of "[]" "strip s"]
  by (simp add: first_line_of_def splitlines_def)

lemma split_once_from_nonempty: "split_once_from sep acc s \<noteq> []"
  by (induction s arbitrary: acc) auto

lemma summary_part_of_total: "\<exists>t. summary_part_of l = Inr t"
  by (simp add: summary_part_of_def split_once_def index_last split_once_from_nonempty)

lemma split_once_from_first:
  "CHR '':'' \<notin> set pre \<Longrightarrow>
   split_once_from '': '' acc (pre @ '': '' @ post) = [acc @ pre, post]"
  by (induction pre arbitrary: acc) auto

lemma first_line_no_linebreak:
  "first_line_of s = Inr l \<Longrightarrow> \<forall>c\<in>set l. \<not> is_linebreak c"
  by (auto simp: first_line_of_eq dest: set_takeWhileD)

lemma rstrip_chars_no_trailing:
  "rstrip_chars chars s = t @ [c] \<Longrightarrow> c \<notin> set chars"
proof -
  assume "rstrip_chars chars s = t @ [c]"
  then have "dropWhile (\<lambda>c. c \<in> set chars) (rev s) = c # rev t"
    by (simp add: rstrip_chars_def rev_swap)
  then show ?thesis using hd_dropWhile [of "\<lambda>c. c \<in> set chars" "rev s"] by auto
qed

lemma ellipsis_never_summary: "summary_part_of l \<noteq> Inr ''...''"
proof
  assume "summary_part_of l = Inr ''...''"
  then obtain x where "rstrip_chars ''.'' x = ''..'' @ ''.''"
    by (auto simp: summary_part_of_def split: sum.splits)
  from rstrip_chars_no_trailing [OF this] show False by simp
qed



lemma lstrip_fixed: "l \<noteq> [] \<Longrightarrow> \<not> is_space (hd l) \<Longrightarrow> lstrip l = l"
  by (cases l) (auto simp: lstrip_def)






subsection \<open>The validator returns\<close>

lemma validate_total:
  "validate_commit_message s = Inr None \<or>
   (\<exists>e. validate_commit_message s = Inr (Some e) \<and> e \<noteq> [])"
proof -
  obtain l where l: "first_line_of s = Inr l" by (simp add: first_line_of_eq)
  obtain t where t: "summary_part_of l = Inr t" using summary_part_of_total by blast
  show ?thesis
    by (simp add: validate_commit_message_def l t empty_error_def lazy_error_def pattern_error_def)
qed

text \<open>A summary that is found in the denylist gets the lazy error, which says "Lazy".\<close>

lemma lazy_summary_rejected:
  assumes "first_line_of s = Inr l" "l \<noteq> []" "summary_part_of l = Inr t" "t \<in> LAZY_SUMMARIES"
  shows "validate_commit_message s = Inr (Some (lazy_error l))"
    and "contains ''Lazy'' (lazy_error l)"
proof -
  from assms show "validate_commit_message s = Inr (Some (lazy_error l))"
    by (simp add: validate_commit_message_def)
  have "lazy_error l = [] @ ''Lazy'' @ '' commit summary rejected: '' @ [CHR 0x27] @ l
     @ [CHR 0x27, CHR 0x0A]
     @ ''  Summaries like '' @ [CHR 0x27] @ ''fix'' @ [CHR 0x27] @ '', ''
     @ [CHR 0x27] @ ''work'' @ [CHR 0x27] @ '', or '' @ [CHR 0x27] @ ''...'' @ [CHR 0x27]
     @ '' are not allowed.'' @ [CHR 0x0A]
     @ ''  Write a meaningful description of the change.''"
    by (simp add: lazy_error_def)
  then show "contains ''Lazy'' (lazy_error l)" by (simp only: contains_mid)
qed

lemma splitlines_nonempty: "s \<noteq> [] \<Longrightarrow> splitlines s \<noteq> []"
  using splitlines_from_first [of "[]" s] by (auto simp: splitlines_def index_def)

section \<open>The matcher decides the language of a pattern\<close>

inductive_cases den_ZeroE: "denotes Zero w"
inductive_cases den_OneE: "denotes One w"
inductive_cases den_LitE: "denotes (Lit a) w"
inductive_cases den_RangeE: "denotes (Range a b) w"
inductive_cases den_DotE: "denotes Dot w"
inductive_cases den_AltE: "denotes (Alt r s) w"
inductive_cases den_SeqE: "denotes (Seq r s) w"

lemma denotes_Nil_nullable: "denotes r w \<Longrightarrow> w = [] \<Longrightarrow> nullable r"
  by (induction rule: denotes.induct) auto

lemma nullable_denotes_Nil: "nullable r \<Longrightarrow> denotes r []"
proof (induction r)
  case (Seq r1 r2)
  then have "denotes r1 []" "denotes r2 []" by auto
  then have "denotes (Seq r1 r2) ([] @ [])" by (rule den_Seq)
  then show ?case by simp
qed (auto intro: denotes.intros)

lemma nullable_iff: "nullable r \<longleftrightarrow> denotes r []"
  using denotes_Nil_nullable nullable_denotes_Nil by blast

lemma deriv_sound: "denotes (deriv c r) w \<Longrightarrow> denotes r (c # w)"
proof (induction r arbitrary: w)
  case (Lit a)
  then show ?case by (auto split: if_splits elim: den_ZeroE den_OneE intro: den_Lit)
next
  case (Range a b)
  then show ?case by (auto split: if_splits elim: den_ZeroE den_OneE intro: den_Range)
next
  case Dot
  then show ?case by (auto split: if_splits elim: den_ZeroE den_OneE intro: den_Dot)
next
  case (Alt r1 r2)
  then show ?case by (auto elim!: den_AltE intro: den_AltL den_AltR)
next
  case (Seq r1 r2)
  have left: "denotes (Seq r1 r2) (c # w)" if "denotes (Seq (deriv c r1) r2) w"
  proof -
    from that obtain u v where "w = u @ v" "denotes (deriv c r1) u" "denotes r2 v"
      by (auto elim: den_SeqE)
    then have "denotes (Seq r1 r2) ((c # u) @ v)" using Seq.IH(1) by (intro den_Seq)
    with \<open>w = u @ v\<close> show ?thesis by simp
  qed
  have right: "denotes (Seq r1 r2) (c # w)" if "nullable r1" "denotes (deriv c r2) w"
  proof -
    from that have "denotes (Seq r1 r2) ([] @ c # w)"
      using Seq.IH(2) by (intro den_Seq) (auto simp: nullable_iff)
    then show ?thesis by simp
  qed
  from Seq.prems show ?case
    by (auto split: if_splits elim!: den_AltE intro: left right)
next
  case (Star r)
  from Star.prems obtain u v where "w = u @ v" "denotes (deriv c r) u" "denotes (Star r) v"
    by (auto elim: den_SeqE)
  then have "denotes (Star r) ((c # u) @ v)" using Star.IH by (intro den_Star_App)
  with \<open>w = u @ v\<close> show ?case by simp
qed (auto elim: den_ZeroE)

lemma deriv_complete: "denotes r x \<Longrightarrow> x = c # w \<Longrightarrow> denotes (deriv c r) w"
proof (induction arbitrary: w rule: denotes.induct)
  case (den_Seq r u s v)
  show ?case
  proof (cases u)
    case Nil
    with den_Seq have "nullable r" "denotes (deriv c s) w" by (auto simp: nullable_iff)
    then show ?thesis by (auto intro: den_AltR)
  next
    case (Cons a u')
    with den_Seq have "denotes (deriv c r) u'" "w = u' @ v" by auto
    with den_Seq.hyps(2) have "denotes (Seq (deriv c r) s) w" by (auto intro: denotes.den_Seq)
    then show ?thesis by (auto intro: den_AltL)
  qed
next
  case (den_Star_App r u v)
  show ?case
  proof (cases u)
    case Nil
    with den_Star_App show ?thesis by auto
  next
    case (Cons a u')
    with den_Star_App have "denotes (deriv c r) u'" "w = u' @ v" by auto
    with den_Star_App.hyps(2) show ?thesis by (auto intro: den_Seq)
  qed
qed (auto intro: denotes.intros)

lemma fullmatch_iff: "fullmatch r s \<longleftrightarrow> denotes r s"
proof (induction s arbitrary: r)
  case Nil
  then show ?case by (simp add: nullable_iff)
next
  case (Cons c s)
  then show ?case using deriv_sound deriv_complete by auto
qed

subsection \<open>Words that \<open>JIRA_PATTERN\<close> matches\<close>

lemma denotes_Word: "denotes (Word w) w"
proof (induction w)
  case Nil
  show ?case by (simp add: den_One)
next
  case (Cons c w)
  have "denotes (Seq (Lit c) (Word w)) ([c] @ w)"
    by (intro den_Seq den_Lit Cons.IH)
  then show ?case by simp
qed

lemma denotes_Star_chars: "\<forall>x\<in>set xs. denotes r [x] \<Longrightarrow> denotes (Star r) xs"
proof (induction xs)
  case Nil
  show ?case by (rule den_Star_Nil)
next
  case (Cons x xs)
  then have "denotes (Star r) ([x] @ xs)" by (intro den_Star_App) auto
  then show ?case by simp
qed

lemma denotes_Plus_chars:
  assumes "xs \<noteq> []" "\<forall>x\<in>set xs. denotes r [x]"
  shows "denotes (Plus r) xs"
proof -
  from assms obtain y ys where xs: "xs = y # ys" by (cases xs) auto
  with assms have "denotes (Seq r (Star r)) ([y] @ ys)"
    by (intro den_Seq denotes_Star_chars) auto
  with xs show ?thesis by (simp add: Plus_def)
qed

lemma digit_in_range: "d \<in> set ''0123456789'' \<Longrightarrow> CHR ''0'' \<le> d \<and> d \<le> CHR ''9''"
  by auto

lemma upper_in_range:
  "c \<in> set ''ABCDEFGHIJKLMNOPQRSTUVWXYZ'' \<Longrightarrow> CHR ''A'' \<le> c \<and> c \<le> CHR ''Z''"
  by auto

lemma digit_not_colon: "d \<in> set ''0123456789'' \<Longrightarrow> d \<noteq> CHR '':''"
  by auto

lemma JIRA_PATTERN_matches:
  assumes ds: "ds \<noteq> []" "set ds \<subseteq> set ''0123456789''"
    and c: "c \<in> set ''ABCDEFGHIJKLMNOPQRSTUVWXYZ''"
    and rest: "rest \<noteq> []" "CHR 0x0A \<notin> set rest"
  shows "re_match_anchored JIRA_PATTERN (''DSO-'' @ ds @ '': '' @ c # rest)"
proof -
  have "denotes (Plus (Range CHR ''0'' CHR ''9'')) ds"
    using ds digit_in_range by (intro denotes_Plus_chars) (auto intro!: den_Range)
  moreover have "denotes (Range CHR ''A'' CHR ''Z'') [c]"
    using upper_in_range [OF c] by (auto intro: den_Range)
  moreover have "denotes (Plus Dot) rest"
    using rest by (intro denotes_Plus_chars) (auto intro!: den_Dot)
  ultimately have "denotes JIRA_PATTERN (''DSO-'' @ ds @ '': '' @ [c] @ rest)"
    unfolding JIRA_PATTERN_def by (intro den_Seq denotes_Word)
  moreover have "denotes Dollar []" by (simp add: Dollar_def den_AltL den_One)
  ultimately have "denotes (Seq JIRA_PATTERN Dollar) ((''DSO-'' @ ds @ '': '' @ [c] @ rest) @ [])"
    by (rule den_Seq)
  then show ?thesis by (simp add: re_match_anchored_def fullmatch_iff)
qed

section \<open>Properties of the validator\<close>

text \<open>
  C5. \<open>validate_commit_message("")\<close>, and \<open>validate_commit_message\<close> of any message made
  only of whitespace (line breaks included), returns the error \<open>Commit message is empty.\<close>,
  which mentions "empty" and is not the pattern-mismatch error of any line.
\<close>

theorem whitespace_only_message_is_empty:
  "validate_commit_message [] = Inr (Some ''Commit message is empty.'') \<and>
   ((\<forall>c\<in>set s. is_space c) \<longrightarrow>
      validate_commit_message s = Inr (Some ''Commit message is empty.'')) \<and>
   contains ''empty'' ''Commit message is empty.'' \<and>
   (\<forall>l. ''Commit message is empty.'' \<noteq> pattern_error l)"
proof -
  have "validate_commit_message s = Inr (Some ''Commit message is empty.'')"
    if "\<forall>c\<in>set s. is_space c" for s
    using that by (simp add: validate_commit_message_def first_line_of_def strip_all_space empty_error_def)
  moreover have "contains ''empty'' ''Commit message is empty.''" by simp
  moreover have "\<forall>l. ''Commit message is empty.'' \<noteq> pattern_error l"
    by (simp add: pattern_error_def)
  ultimately show ?thesis by simp
qed

text \<open>The theorem at the message of three spaces, two line feeds and two spaces.\<close>

theorem whitespace_only_message_is_empty_witness:
  "list_all is_space (''   '' @ [CHR 0x0A, CHR 0x0A] @ ''  '') \<and>
   validate_commit_message (''   '' @ [CHR 0x0A, CHR 0x0A] @ ''  '') =
     Inr (Some ''Commit message is empty.'')"
  using whitespace_only_message_is_empty [of "''   '' @ [CHR 0x0A, CHR 0x0A] @ ''  ''"]
  by (simp add: is_space_def)

text \<open>
  C9. \<open>validate_commit_message\<close> returns on every message, and never by an exception:
  when the stripped message is not empty its list of lines is not empty, so the index
  \<open>[0]\<close> is in range; the result is \<open>None\<close> or an error string that is not empty.
\<close>

theorem validate_commit_message_total:
  "(strip s \<noteq> [] \<longrightarrow> splitlines (strip s) \<noteq> []) \<and>
   (\<exists>l. first_line_of s = Inr l) \<and>
   (validate_commit_message s = Inr None \<or>
    (\<exists>e. validate_commit_message s = Inr (Some e) \<and> e \<noteq> []))"
  using validate_total [of s] by (simp add: splitlines_nonempty first_line_of_eq)

text \<open>The theorem at the message \<open>DSO-7: Ab\<close>, whose stripped form is not empty.\<close>

theorem validate_commit_message_total_witness:
  "strip ''DSO-7: Ab'' \<noteq> [] \<and> splitlines (strip ''DSO-7: Ab'') \<noteq> [] \<and>
   validate_commit_message ''DSO-7: Ab'' = Inr None"
proof -
  have a: "strip ''DSO-7: Ab'' \<noteq> []" by code_simp
  have b: "validate_commit_message ''DSO-7: Ab'' = Inr None" by code_simp
  from a b validate_commit_message_total [of "''DSO-7: Ab''"] show ?thesis by simp
qed

text \<open>
  C8. \<open>validate_commit_message("PROJ-42: Fix something")\<close> returns the pattern-mismatch
  error: the summary \<open>fix something\<close> is not a lazy one, the line does not match
  \<open>JIRA_PATTERN\<close>, and the error contains "DSO" (and does not contain "Lazy").
\<close>

theorem wrong_project_prefix_is_pattern_mismatch:
  "validate_commit_message ''PROJ-42: Fix something'' =
     Inr (Some (pattern_error ''PROJ-42: Fix something'')) \<and>
   summary_part_of ''PROJ-42: Fix something'' = Inr ''fix something'' \<and>
   ''fix something'' \<notin> LAZY_SUMMARIES \<and>
   \<not> re_match_anchored JIRA_PATTERN ''PROJ-42: Fix something'' \<and>
   contains ''DSO'' (pattern_error ''PROJ-42: Fix something'') \<and>
   \<not> contains ''Lazy'' (pattern_error ''PROJ-42: Fix something'')"
proof -
  have "validate_commit_message ''PROJ-42: Fix something'' =
     Inr (Some (pattern_error ''PROJ-42: Fix something''))" by code_simp
  moreover have "summary_part_of ''PROJ-42: Fix something'' = Inr ''fix something''" by code_simp
  moreover have "''fix something'' \<notin> LAZY_SUMMARIES" by (simp add: LAZY_SUMMARIES_def)
  moreover have "\<not> re_match_anchored JIRA_PATTERN ''PROJ-42: Fix something''" by code_simp
  moreover have "contains ''DSO'' (pattern_error ''PROJ-42: Fix something'')" by code_simp
  moreover have "\<not> contains ''Lazy'' (pattern_error ''PROJ-42: Fix something'')" by code_simp
  ultimately show ?thesis by blast
qed

text \<open>
  C1, amended. If the first line of the stripped message is \<open>DSO-\<close>, one or more decimal
  digits, a colon and a space, a letter from \<open>A\<close> to \<open>Z\<close> and then at least one more
  character (the pattern \<open>^DSO-[0-9]+: [A-Z].+$\<close>), and the text after the colon and
  space, stripped, lowercased and without its trailing periods, is not a lazy summary,
  then \<open>validate_commit_message\<close> returns \<open>None\<close>.
\<close>

theorem jira_shaped_message_is_valid:
  assumes line: "first_line_of s = Inr (''DSO-'' @ ds @ '': '' @ c # rest)"
    and ds: "ds \<noteq> []" "set ds \<subseteq> set ''0123456789''"
    and c: "c \<in> set ''ABCDEFGHIJKLMNOPQRSTUVWXYZ''"
    and rest: "rest \<noteq> []"
    and summary: "rstrip_chars ''.'' (lower (strip (c # rest))) \<notin> LAZY_SUMMARIES"
  shows "validate_commit_message s = Inr None"
proof -
  let ?l = "''DSO-'' @ ds @ '': '' @ c # rest"
  have "CHR '':'' \<notin> set (''DSO-'' @ ds)" using ds(2) digit_not_colon by auto
  from split_once_from_first [OF this, of "[]" "c # rest"]
  have "split_once '': '' ?l = [''DSO-'' @ ds, c # rest]" by (simp add: split_once_def)
  then have sp: "summary_part_of ?l = Inr (rstrip_chars ''.'' (lower (strip (c # rest))))"
    by (simp add: summary_part_of_def index_last)
  have "is_linebreak (CHR 0x0A)" by (simp add: is_linebreak_def)
  with first_line_no_linebreak [OF line] have "CHR 0x0A \<notin> set rest" by auto
  with ds c rest have "re_match_anchored JIRA_PATTERN ?l" by (intro JIRA_PATTERN_matches)
  with line sp summary show ?thesis by (simp add: validate_commit_message_def)
qed

text \<open>The theorem at the message \<open>DSO-42: Implement rate limiter\<close>.\<close>

theorem jira_shaped_message_is_valid_witness:
  "first_line_of ''DSO-42: Implement rate limiter'' =
     Inr (''DSO-'' @ ''42'' @ '': '' @ CHR ''I'' # ''mplement rate limiter'') \<and>
   ''42'' \<noteq> [] \<and> set ''42'' \<subseteq> set ''0123456789'' \<and>
   CHR ''I'' \<in> set ''ABCDEFGHIJKLMNOPQRSTUVWXYZ'' \<and> ''mplement rate limiter'' \<noteq> [] \<and>
   rstrip_chars ''.'' (lower (strip (CHR ''I'' # ''mplement rate limiter''))) \<notin> LAZY_SUMMARIES \<and>
   validate_commit_message ''DSO-42: Implement rate limiter'' = Inr None"
proof -
  have a: "first_line_of ''DSO-42: Implement rate limiter'' =
     Inr (''DSO-'' @ ''42'' @ '': '' @ CHR ''I'' # ''mplement rate limiter'')" by code_simp
  have "rstrip_chars ''.'' (lower (strip (CHR ''I'' # ''mplement rate limiter''))) =
     ''implement rate limiter''" by code_simp
  then have b: "rstrip_chars ''.'' (lower (strip (CHR ''I'' # ''mplement rate limiter'')))
     \<notin> LAZY_SUMMARIES" by (simp add: LAZY_SUMMARIES_def)
  from a b jira_shaped_message_is_valid [OF a _ _ _ _ b] show ?thesis by simp
qed

text \<open>
  C1 as stated, with no character required after the capital letter, fails at
  \<open>DSO-1: A\<close>: the line is \<open>DSO-\<close>, the digit \<open>1\<close>, a colon and a space, \<open>A\<close> and
  nothing more, its summary \<open>a\<close> is not lazy, and the pattern-mismatch error is returned.
\<close>

theorem single_letter_summary_counterexample:
  "first_line_of ''DSO-1: A'' = Inr (''DSO-'' @ ''1'' @ '': '' @ CHR ''A'' # []) \<and>
   rstrip_chars ''.'' (lower (strip [CHR ''A''])) = ''a'' \<and>
   ''a'' \<notin> LAZY_SUMMARIES \<and>
   validate_commit_message ''DSO-1: A'' = Inr (Some (pattern_error ''DSO-1: A'')) \<and>
   validate_commit_message ''DSO-1: A'' \<noteq> Inr None"
proof -
  have "first_line_of ''DSO-1: A'' = Inr (''DSO-'' @ ''1'' @ '': '' @ CHR ''A'' # [])"
    by code_simp
  moreover have "rstrip_chars ''.'' (lower (strip [CHR ''A''])) = ''a''" by code_simp
  moreover have "''a'' \<notin> LAZY_SUMMARIES" by (simp add: LAZY_SUMMARIES_def)
  moreover have "validate_commit_message ''DSO-1: A'' = Inr (Some (pattern_error ''DSO-1: A''))"
    by code_simp
  ultimately show ?thesis by simp
qed

text \<open>
  C2. The claim promises the "Lazy" rejection for every first line whose summary, compared
  without regard to case and trailing periods, is in the denylist, and the denylist holds
  \<open>...\<close> (the lazy error itself names it). The code strips the trailing periods of the
  summary before the lookup, so the summary of \<open>DSO-1: ...\<close> is the empty string, which is
  not in the denylist: the message gets the pattern-mismatch error, which does not mention
  "Lazy". No line has \<open>...\<close> as its summary.
\<close>

theorem ellipsis_summary_not_reported_lazy:
  "''...'' \<in> LAZY_SUMMARIES \<and>
   contains ''...'' (lazy_error ''DSO-1: ...'') \<and>
   first_line_of ''DSO-1: ...'' = Inr ''DSO-1: ...'' \<and>
   split_once '': '' ''DSO-1: ...'' = [''DSO-1'', ''...''] \<and>
   summary_part_of ''DSO-1: ...'' = Inr [] \<and>
   [] \<notin> LAZY_SUMMARIES \<and>
   validate_commit_message ''DSO-1: ...'' = Inr (Some (pattern_error ''DSO-1: ...'')) \<and>
   \<not> contains ''Lazy'' (pattern_error ''DSO-1: ...'') \<and>
   (\<forall>l. summary_part_of l \<noteq> Inr ''...'')"
proof -
  have "''...'' \<in> LAZY_SUMMARIES" by (simp add: LAZY_SUMMARIES_def)
  moreover have "contains ''...'' (lazy_error ''DSO-1: ...'')" by code_simp
  moreover have "first_line_of ''DSO-1: ...'' = Inr ''DSO-1: ...''" by code_simp
  moreover have "split_once '': '' ''DSO-1: ...'' = [''DSO-1'', ''...'']" by code_simp
  moreover have "summary_part_of ''DSO-1: ...'' = Inr []" by code_simp
  moreover have "[] \<notin> LAZY_SUMMARIES" by (simp add: LAZY_SUMMARIES_def)
  moreover have "validate_commit_message ''DSO-1: ...'' =
      Inr (Some (pattern_error ''DSO-1: ...''))" by code_simp
  moreover have "\<not> contains ''Lazy'' (pattern_error ''DSO-1: ...'')" by code_simp
  ultimately show ?thesis using ellipsis_never_summary by simp
qed




section \<open>Properties of the entry point\<close>

lemma allowed_list_text:
  "join '', '' (sorted_list_of_set ALLOWED_MSG_FILES) =
     ''COMMIT_EDITMSG, MERGE_MSG, SQUASH_MSG, TAG_EDITMSG''"
  by code_simp

lemma utext_append: "utext (a @ b) = utext a @ utext b"
  by (simp add: utext_def)

lemma utext_inj: "utext a = utext b \<longleftrightarrow> a = b"
  unfolding utext_def by (rule inj_map_eq_map) (simp add: inj_on_def)

lemma not_recognized_error_inj: "not_recognized_error a = not_recognized_error b \<longleftrightarrow> a = b"
  by (simp add: not_recognized_error_def)

lemma contains_argument:
  "contains (utext a) (print_line (utext (not_recognized_error a)))"
proof -
  have "print_line (utext (not_recognized_error a)) =
      utext (''Error: '' @ [CHR 0x27]) @ utext a
      @ (utext ([CHR 0x27] @ '' is not a recognized git commit message file.'' @ [CHR 0x0A]
           @ ''  Expected one of: '' @ join '', '' (sorted_list_of_set ALLOWED_MSG_FILES)) @ [0x0A])"
    by (simp only: print_line_def not_recognized_error_def utext_append append_assoc)
  then show ?thesis by (simp only: contains_mid)
qed

lemma contains_allowed_list:
  "contains (utext ''COMMIT_EDITMSG, MERGE_MSG, SQUASH_MSG, TAG_EDITMSG'')
     (print_line (utext (not_recognized_error a)))"
proof -
  have "print_line (utext (not_recognized_error a)) =
      utext (''Error: '' @ [CHR 0x27] @ a @ [CHR 0x27]
           @ '' is not a recognized git commit message file.'' @ [CHR 0x0A]
           @ ''  Expected one of: '')
      @ utext ''COMMIT_EDITMSG, MERGE_MSG, SQUASH_MSG, TAG_EDITMSG'' @ [0x0A]"
    by (simp only: print_line_def not_recognized_error_def utext_append allowed_list_text
        append_assoc)
  then show ?thesis by (simp only: contains_mid)
qed

lemma contains_error: "contains (utext e) (print_line (rejection_text e))"
proof -
  have "print_line (rejection_text e) = [0x0A, 0x274C, 0x20] @ utext e @ [0x0A, 0x0A]"
    by (simp add: print_line_def rejection_text_def)
  then show ?thesis by (simp only: contains_mid)
qed

lemma main_usage: "length argv < 2 \<Longrightarrow> main fs argv = Inr (1, print_line (utext usage_error))"
  by (simp add: main_def)

lemma main_not_recognized:
  "2 \<le> length argv \<Longrightarrow> safe_commit_msg_path fs (argv ! 1) = Inr None \<Longrightarrow>
   main fs argv = Inr (1, print_line (utext (not_recognized_error (argv ! 1))))"
  by (simp add: main_def)

lemma main_rejected:
  "2 \<le> length argv \<Longrightarrow> safe_commit_msg_path fs (argv ! 1) = Inr (Some p) \<Longrightarrow>
   read_text fs p = Inr message \<Longrightarrow> validate_commit_message message = Inr (Some e) \<Longrightarrow>
   main fs argv = Inr (1, print_line (rejection_text e))"
  by (simp add: main_def)

lemma main_accepted:
  "2 \<le> length argv \<Longrightarrow> safe_commit_msg_path fs (argv ! 1) = Inr (Some p) \<Longrightarrow>
   read_text fs p = Inr message \<Longrightarrow> validate_commit_message message = Inr None \<Longrightarrow>
   main fs argv = Inr (0, [])"
  by (simp add: main_def)

lemma safe_path_unlisted:
  "basename a \<notin> ALLOWED_MSG_FILES \<Longrightarrow> safe_commit_msg_path fs a = Inr None"
  by (simp add: safe_commit_msg_path_def)

lemma safe_path_basename:
  "basename a = basename b \<Longrightarrow> safe_commit_msg_path fs a = safe_commit_msg_path fs b"
  by (simp add: safe_commit_msg_path_def)

text \<open>
  C7. For the argument \<open>../../etc/passwd\<close> the basename is \<open>passwd\<close>, which is not in the
  allowlist. The path check looks at the basename only, and for every argument whose
  basename is outside the allowlist \<open>main\<close> returns exit code 1 and writes an error that
  lists \<open>COMMIT_EDITMSG, MERGE_MSG, SQUASH_MSG, TAG_EDITMSG\<close>.
\<close>

theorem unlisted_basename_is_rejected:
  "basename ''../../etc/passwd'' = ''passwd'' \<and> ''passwd'' \<notin> ALLOWED_MSG_FILES \<and>
   (basename a = basename b \<longrightarrow> safe_commit_msg_path fs a = safe_commit_msg_path fs b) \<and>
   (2 \<le> length argv \<and> basename (argv ! 1) \<notin> ALLOWED_MSG_FILES \<longrightarrow>
      (\<exists>err. main fs argv = Inr (1, err) \<and>
         contains (utext ''COMMIT_EDITMSG, MERGE_MSG, SQUASH_MSG, TAG_EDITMSG'') err))"
proof -
  have "basename ''../../etc/passwd'' = ''passwd''" by code_simp
  moreover have "''passwd'' \<notin> ALLOWED_MSG_FILES" by (simp add: ALLOWED_MSG_FILES_def)
  ultimately show ?thesis
    using safe_path_basename [of a b fs]
    by (auto simp: main_not_recognized safe_path_unlisted contains_allowed_list)
qed

text \<open>The theorem at \<open>../../etc/passwd\<close>, in the repository without message files.\<close>

theorem unlisted_basename_is_rejected_witness:
  "basename ''x/COMMIT_EDITMSG'' = basename ''COMMIT_EDITMSG'' \<and>
   safe_commit_msg_path empty_repo ''x/COMMIT_EDITMSG'' =
     safe_commit_msg_path empty_repo ''COMMIT_EDITMSG'' \<and>
   2 \<le> length [''validate_jira_msg.py'', ''../../etc/passwd''] \<and>
   basename ([''validate_jira_msg.py'', ''../../etc/passwd''] ! 1) \<notin> ALLOWED_MSG_FILES \<and>
   (\<exists>err. main empty_repo [''validate_jira_msg.py'', ''../../etc/passwd''] = Inr (1, err) \<and>
      contains (utext ''COMMIT_EDITMSG, MERGE_MSG, SQUASH_MSG, TAG_EDITMSG'') err)"
proof -
  have a: "basename ''x/COMMIT_EDITMSG'' = basename ''COMMIT_EDITMSG''" by code_simp
  have "basename ''../../etc/passwd'' = ''passwd''" by code_simp
  then have b: "basename ([''validate_jira_msg.py'', ''../../etc/passwd''] ! 1) \<notin> ALLOWED_MSG_FILES"
    by (simp add: ALLOWED_MSG_FILES_def)
  from a b unlisted_basename_is_rejected [of "''x/COMMIT_EDITMSG''" "''COMMIT_EDITMSG''"
      empty_repo "[''validate_jira_msg.py'', ''../../etc/passwd'']"]
  show ?thesis by simp
qed

text \<open>
  C3, amended. When \<open>main\<close> rejects its argument as not recognized, what it writes to the
  standard error stream is fixed by the argument alone, whatever the file system: the
  argument as it was given, directory components included, between fixed words and the
  allowlist. Two rejected arguments give the same output exactly when they are equal.
\<close>

theorem rejection_echoes_argument:
  "(2 \<le> length argv \<and> safe_commit_msg_path fs (argv ! 1) = Inr None \<longrightarrow>
      main fs argv = Inr (1, print_line (utext (not_recognized_error (argv ! 1)))) \<and>
      contains (utext (argv ! 1)) (print_line (utext (not_recognized_error (argv ! 1))))) \<and>
   (print_line (utext (not_recognized_error a)) = print_line (utext (not_recognized_error b))
      \<longleftrightarrow> a = b)"
proof -
  have "print_line (utext (not_recognized_error a)) = print_line (utext (not_recognized_error b))
      \<longleftrightarrow> a = b"
    by (simp add: print_line_def utext_inj not_recognized_error_inj)
  then show ?thesis by (simp add: main_not_recognized contains_argument)
qed

text \<open>The theorem at \<open>../../etc/passwd\<close>, in the repository without message files.\<close>

theorem rejection_echoes_argument_witness:
  "2 \<le> length [''validate_jira_msg.py'', ''../../etc/passwd''] \<and>
   safe_commit_msg_path empty_repo ([''validate_jira_msg.py'', ''../../etc/passwd''] ! 1) =
     Inr None \<and>
   main empty_repo [''validate_jira_msg.py'', ''../../etc/passwd''] =
     Inr (1, print_line (utext (not_recognized_error ''../../etc/passwd''))) \<and>
   contains (utext ''../../etc/passwd'')
     (print_line (utext (not_recognized_error ''../../etc/passwd'')))"
proof -
  have "safe_commit_msg_path empty_repo ''../../etc/passwd'' = Inr None"
    by (simp add: safe_path_unlisted basename_def ALLOWED_MSG_FILES_def)
  with rejection_echoes_argument [of "[''validate_jira_msg.py'', ''../../etc/passwd'']" empty_repo]
  show ?thesis by simp
qed

text \<open>
  C3 as stated, with output that shows the basename only, fails at \<open>a/passwd\<close> and
  \<open>b/passwd\<close>: the basenames agree, both arguments are rejected, the outputs differ, and
  the first shows the directory \<open>a/\<close>.
\<close>

theorem same_basename_different_stderr_counterexample:
  "basename ''a/passwd'' = basename ''b/passwd'' \<and>
   safe_commit_msg_path empty_repo ''a/passwd'' = Inr None \<and>
   safe_commit_msg_path empty_repo ''b/passwd'' = Inr None \<and>
   main empty_repo [''validate_jira_msg.py'', ''a/passwd''] =
     Inr (1, print_line (utext (not_recognized_error ''a/passwd''))) \<and>
   main empty_repo [''validate_jira_msg.py'', ''b/passwd''] =
     Inr (1, print_line (utext (not_recognized_error ''b/passwd''))) \<and>
   main empty_repo [''validate_jira_msg.py'', ''a/passwd''] \<noteq>
     main empty_repo [''validate_jira_msg.py'', ''b/passwd''] \<and>
   contains (utext ''a/'') (print_line (utext (not_recognized_error ''a/passwd'')))"
proof -
  have b: "basename ''a/passwd'' = ''passwd''" "basename ''b/passwd'' = ''passwd''" by code_simp+
  have n: "''passwd'' \<notin> ALLOWED_MSG_FILES" by (simp add: ALLOWED_MSG_FILES_def)
  have s: "safe_commit_msg_path empty_repo ''a/passwd'' = Inr None"
    "safe_commit_msg_path empty_repo ''b/passwd'' = Inr None"
    using b n by (simp_all add: safe_path_unlisted)
  have m: "main empty_repo [''validate_jira_msg.py'', ''a/passwd''] =
     Inr (1, print_line (utext (not_recognized_error ''a/passwd'')))"
    "main empty_repo [''validate_jira_msg.py'', ''b/passwd''] =
     Inr (1, print_line (utext (not_recognized_error ''b/passwd'')))"
    using s by (simp_all add: main_not_recognized)
  have d: "print_line (utext (not_recognized_error ''a/passwd'')) \<noteq>
     print_line (utext (not_recognized_error ''b/passwd''))"
    by (simp add: print_line_def utext_inj not_recognized_error_inj)
  have c: "contains (utext ''a/'') (print_line (utext (not_recognized_error ''a/passwd'')))"
    by code_simp
  from b s m d c show ?thesis by simp
qed

text \<open>
  C4, amended. Take an invocation in which the path checks raise no exception and the
  file they accept can be read. Then \<open>main\<close> returns exit code 0 and writes nothing
  exactly when there are two arguments or more, the path checks pass and the validator
  accepts the text of the file. In every other case it returns exit code 1 and writes to
  the standard error stream: the usage line when an argument is missing; the
  not-recognized error of the argument when the path checks give no file; and, when the
  validator returns an error, the rejection text, which contains that error.
\<close>

theorem main_exit_code:
  assumes checks: "2 \<le> length argv \<longrightarrow> (\<exists>r. safe_commit_msg_path fs (argv ! 1) = Inr r)"
    and readable: "\<forall>p. 2 \<le> length argv \<and> safe_commit_msg_path fs (argv ! 1) = Inr (Some p) \<longrightarrow>
      (\<exists>message. read_text fs p = Inr message)"
  shows "(main fs argv = Inr (0, []) \<longleftrightarrow>
           2 \<le> length argv \<and>
           (\<exists>p message. safe_commit_msg_path fs (argv ! 1) = Inr (Some p) \<and>
              read_text fs p = Inr message \<and> validate_commit_message message = Inr None)) \<and>
         (main fs argv \<noteq> Inr (0, []) \<longrightarrow>
            (length argv < 2 \<and> main fs argv = Inr (1, print_line (utext usage_error))) \<or>
            (2 \<le> length argv \<and> safe_commit_msg_path fs (argv ! 1) = Inr None \<and>
             main fs argv = Inr (1, print_line (utext (not_recognized_error (argv ! 1))))) \<or>
            (\<exists>p message e. 2 \<le> length argv \<and>
               safe_commit_msg_path fs (argv ! 1) = Inr (Some p) \<and>
               read_text fs p = Inr message \<and>
               validate_commit_message message = Inr (Some e) \<and> e \<noteq> [] \<and>
               main fs argv = Inr (1, print_line (rejection_text e)) \<and>
               contains (utext e) (print_line (rejection_text e))))"
proof (cases "length argv < 2")
  case True
  then show ?thesis by (simp add: main_usage print_line_def)
next
  case False
  then have long: "2 \<le> length argv" by simp
  with checks obtain r where r: "safe_commit_msg_path fs (argv ! 1) = Inr r" by blast
  show ?thesis
  proof (cases r)
    case None
    with long r show ?thesis by (simp add: main_not_recognized print_line_def)
  next
    case (Some p)
    with r have p: "safe_commit_msg_path fs (argv ! 1) = Inr (Some p)" by simp
    with long readable obtain message where m: "read_text fs p = Inr message" by blast
    from validate_total [of message] show ?thesis
    proof
      assume v: "validate_commit_message message = Inr None"
      from main_accepted [OF long p m v] long p m v show ?thesis by auto
    next
      assume "\<exists>e. validate_commit_message message = Inr (Some e) \<and> e \<noteq> []"
      then obtain e where e: "validate_commit_message message = Inr (Some e)" "e \<noteq> []"
        by blast
      have out: "main fs argv = Inr (1, print_line (rejection_text e))"
        using long p m e(1) by (rule main_rejected)
      have "\<not> (\<exists>p message. safe_commit_msg_path fs (argv ! 1) = Inr (Some p) \<and>
              read_text fs p = Inr message \<and> validate_commit_message message = Inr None)"
        using p m e by auto
      moreover have "\<exists>p message e. 2 \<le> length argv \<and>
               safe_commit_msg_path fs (argv ! 1) = Inr (Some p) \<and>
               read_text fs p = Inr message \<and>
               validate_commit_message message = Inr (Some e) \<and> e \<noteq> [] \<and>
               main fs argv = Inr (1, print_line (rejection_text e)) \<and>
               contains (utext e) (print_line (rejection_text e))"
        using long p m e out contains_error by blast
      ultimately show ?thesis using out by simp
    qed
  qed
qed

text \<open>
  The theorem for the argument \<open>.git/COMMIT_EDITMSG\<close>, in the repository whose
  \<open>COMMIT_EDITMSG\<close> reads \<open>DSO-42: Implement rate limiter\<close> (accepted) and in the one where
  it reads \<open>wip\<close> (rejected with the lazy error).
\<close>

theorem main_exit_code_witness:
  "safe_commit_msg_path (repo_with_message ''DSO-42: Implement rate limiter'')
     ([''validate_jira_msg.py'', ''.git/COMMIT_EDITMSG''] ! 1) =
     Inr (Some ''/repo/.git/COMMIT_EDITMSG'') \<and>
   read_text (repo_with_message ''DSO-42: Implement rate limiter'') ''/repo/.git/COMMIT_EDITMSG'' =
     Inr ''DSO-42: Implement rate limiter'' \<and>
   validate_commit_message ''DSO-42: Implement rate limiter'' = Inr None \<and>
   main (repo_with_message ''DSO-42: Implement rate limiter'')
     [''validate_jira_msg.py'', ''.git/COMMIT_EDITMSG''] = Inr (0, []) \<and>
   safe_commit_msg_path (repo_with_message ''wip'')
     ([''validate_jira_msg.py'', ''.git/COMMIT_EDITMSG''] ! 1) =
     Inr (Some ''/repo/.git/COMMIT_EDITMSG'') \<and>
   read_text (repo_with_message ''wip'') ''/repo/.git/COMMIT_EDITMSG'' = Inr ''wip'' \<and>
   validate_commit_message ''wip'' = Inr (Some (lazy_error ''wip'')) \<and>
   main (repo_with_message ''wip'') [''validate_jira_msg.py'', ''.git/COMMIT_EDITMSG''] \<noteq>
     Inr (0, []) \<and>
   main (repo_with_message ''wip'') [''validate_jira_msg.py'', ''.git/COMMIT_EDITMSG''] =
     Inr (1, print_line (rejection_text (lazy_error ''wip'')))"
proof -
  let ?argv = "[''validate_jira_msg.py'', ''.git/COMMIT_EDITMSG'']"
  let ?P = "''/repo/.git/COMMIT_EDITMSG''"
  have b: "basename ''.git/COMMIT_EDITMSG'' = ''COMMIT_EDITMSG''" by code_simp
  have p: "safe_commit_msg_path (repo_with_message t) (?argv ! 1) = Inr (Some ?P)" for t
    by (simp add: safe_commit_msg_path_def b ALLOWED_MSG_FILES_def repo_with_message_def)
  have r: "read_text (repo_with_message t) ?P = Inr t" for t
    by (simp add: repo_with_message_def)
  have v: "validate_commit_message ''DSO-42: Implement rate limiter'' = Inr None" by code_simp
  have w: "validate_commit_message ''wip'' = Inr (Some (lazy_error ''wip''))" by code_simp
  have h1: "2 \<le> length ?argv \<longrightarrow>
      (\<exists>r. safe_commit_msg_path (repo_with_message t) (?argv ! 1) = Inr r)" for t
    using p by blast
  have h2: "\<forall>p. 2 \<le> length ?argv \<and>
      safe_commit_msg_path (repo_with_message t) (?argv ! 1) = Inr (Some p) \<longrightarrow>
      (\<exists>message. read_text (repo_with_message t) p = Inr message)" for t
    using p r by auto
  from main_exit_code [OF h1 h2, of "''DSO-42: Implement rate limiter''"] p r v
  have acc: "main (repo_with_message ''DSO-42: Implement rate limiter'') ?argv = Inr (0, [])"
    by auto
  from main_exit_code [OF h1 h2, of "''wip''"] p [of "''wip''"] r [of "''wip''"] w
  have rej: "main (repo_with_message ''wip'') ?argv \<noteq> Inr (0, [])"
    "main (repo_with_message ''wip'') ?argv = Inr (1, print_line (rejection_text (lazy_error ''wip'')))"
    by auto
  from p r v w acc rej show ?thesis by simp
qed

text \<open>
  C4 as stated, for every invocation, fails where \<open>is_file\<close> raises: in the repository
  whose \<open>.git\<close> directory cannot be searched, the argument \<open>COMMIT_EDITMSG\<close> passes the
  allowlist, \<open>is_file\<close> raises \<open>PermissionError\<close>, and \<open>main\<close> ends with that exception:
  no exit code 0, and no exit code 1 either.
\<close>

theorem unsearchable_git_dir_counterexample:
  "basename ''COMMIT_EDITMSG'' \<in> ALLOWED_MSG_FILES \<and>
   is_file unsearchable_repo ''/repo/.git/COMMIT_EDITMSG'' = Inl PermissionError \<and>
   safe_commit_msg_path unsearchable_repo ''COMMIT_EDITMSG'' = Inl PermissionError \<and>
   main unsearchable_repo [''validate_jira_msg.py'', ''COMMIT_EDITMSG''] = Inl PermissionError \<and>
   main unsearchable_repo [''validate_jira_msg.py'', ''COMMIT_EDITMSG''] \<noteq> Inr (0, [])"
proof -
  have b: "basename ''COMMIT_EDITMSG'' = ''COMMIT_EDITMSG''" by code_simp
  have a: "''COMMIT_EDITMSG'' \<in> ALLOWED_MSG_FILES" by (simp add: ALLOWED_MSG_FILES_def)
  have s: "safe_commit_msg_path unsearchable_repo ''COMMIT_EDITMSG'' = Inl PermissionError"
    by (simp add: safe_commit_msg_path_def b a unsearchable_repo_def)
  then have "main unsearchable_repo [''validate_jira_msg.py'', ''COMMIT_EDITMSG''] =
      Inl PermissionError" by (simp add: main_def)
  with a b s show ?thesis by (simp add: unsearchable_repo_def)
qed

text \<open>
  C10. \<open>main\<close> reads \<open>sys.argv[1]\<close> only: with any further arguments the exit code and the
  output are those of the call with the first argument alone, and they are not the usage
  error.
\<close>

theorem main_ignores_extra_arguments:
  "main fs (prog # arg # extra) = main fs [prog, arg] \<and>
   main fs (prog # arg # extra) \<noteq> Inr (1, print_line (utext usage_error))"
proof -
  have "not_recognized_error arg \<noteq> usage_error"
    by (simp add: not_recognized_error_def usage_error_def)
  then have "utext (not_recognized_error arg) \<noteq> utext usage_error" by (simp add: utext_inj)
  moreover have "rejection_text e \<noteq> utext usage_error" for e
    by (simp add: rejection_text_def usage_error_def utext_def)
  ultimately show ?thesis
    by (simp add: main_def print_line_def split: option.split sum.split)
qed

end
